theory Spec2Isabelle
  imports Main "HOL-Library.Sublist"
begin

section \<open>The backup-client module of the Dimension Data cloud\<close>

text \<open>
  The module \<^verbatim>\<open>cloud/dimensiondata/dimensiondata_backup_client.py\<close> walks over a list of
  server ids and, for each of them, reads the server's backup details from the provider
  and adds, removes or re-applies a backup client. The provider (libcloud's
  \<^verbatim>\<open>DimensionDataBackupDriver\<close>) and the host (\<^verbatim>\<open>AnsibleModule\<close>) are not part of the
  repository: the driver is a parameter of the model, and the host's \<^verbatim>\<open>exit_json\<close> and
  \<^verbatim>\<open>fail_json\<close>, which end the process, are the outcomes of a run.
\<close>

subsection \<open>Exceptions and outcomes\<close>

text \<open>
  The source catches \<^verbatim>\<open>DimensionDataAPIException\<close> (and reads its \<^verbatim>\<open>msg\<close>) and nothing else.
  Reading an attribute that an object does not have raises \<^verbatim>\<open>AttributeError\<close>; the
  constructor carries the attribute's name. Any other exception of the driver is
  \<open>PyException\<close>.
\<close>

datatype exn =
    DimensionDataAPIException string
  | AttributeError string
  | PyException string

type_synonym client_dict = "string \<rightharpoonup> string"

type_synonym backups = "string \<rightharpoonup> client_dict"

text \<open>
  A run ends in one of three ways: \<^verbatim>\<open>module.exit_json(changed=..., msg=..., backups=...)\<close>,
  \<^verbatim>\<open>module.fail_json(msg=...)\<close>, or an exception that nothing catches.
\<close>

datatype outcome =
    exit_json bool string backups
  | fail_json string
  | uncaught exn

subsection \<open>The provider's objects\<close>

text \<open>
  A backup client as the module reads it: \<^verbatim>\<open>id\<close>, \<^verbatim>\<open>type.type\<close>, \<^verbatim>\<open>storage_policy\<close>,
  \<^verbatim>\<open>schedule_policy\<close> and \<^verbatim>\<open>download_url\<close>.
\<close>

record backup_client_type =
  type :: string

record backup_client =
  bc_id :: string
  bc_type :: backup_client_type
  bc_storage_policy :: string
  bc_schedule_policy :: string
  bc_download_url :: string

text \<open>
  The backup details of a server. The class of this object is libcloud's and its
  declaration is not in the repository, so besides the list \<^verbatim>\<open>clients\<close> the object is
  given by the dictionary of its other attributes, and reading an attribute is a lookup
  by the name the source spells.
\<close>

record backup_details =
  clients :: "backup_client list"
  attrs :: "string \<rightharpoonup> string"

definition getattr :: "backup_details \<Rightarrow> string \<Rightarrow> exn + string" where
  "getattr obj name =
     (case attrs obj name of
        None \<Rightarrow> Inl (AttributeError name)
      | Some v \<Rightarrow> Inr v)"

subsection \<open>The driver and the record of its calls\<close>

text \<open>
  The four methods of the driver that the module calls. Each takes the provider's state
  and returns the new one, with either the value or the exception raised.
\<close>

record 'p driver =
  ex_get_backup_details_for_target :: "'p \<Rightarrow> string \<Rightarrow> (exn + backup_details) \<times> 'p"
  ex_remove_client_from_target :: "'p \<Rightarrow> string \<Rightarrow> backup_client \<Rightarrow> (exn + unit) \<times> 'p"
  ex_add_client_to_target ::
    "'p \<Rightarrow> string \<Rightarrow> string \<Rightarrow> string \<Rightarrow> string \<Rightarrow> string \<Rightarrow> string \<Rightarrow> (exn + backup_client) \<times> 'p"
  update_target :: "'p \<Rightarrow> string \<Rightarrow> (string \<rightharpoonup> string) \<Rightarrow> (exn + unit) \<times> 'p"

text \<open>
  Every call of the driver is recorded, in order: a read of the backup details, an add, a
  remove, and a modify (\<^verbatim>\<open>update_target\<close> with its \<^verbatim>\<open>extra\<close> dictionary).
\<close>

datatype call =
    Read string
  | Add string string string string string string
  | Remove string backup_client
  | Modify string "string \<rightharpoonup> string"

record 'p world =
  provider :: 'p
  calls :: "call list"

definition do_get :: "'p driver \<Rightarrow> 'p world \<Rightarrow> string \<Rightarrow> (exn + backup_details) \<times> 'p world" where
  "do_get client w server_id =
     (case ex_get_backup_details_for_target client (provider w) server_id of
        (r, p') \<Rightarrow> (r, \<lparr>provider = p', calls = calls w @ [Read server_id]\<rparr>))"

definition do_remove ::
  "'p driver \<Rightarrow> 'p world \<Rightarrow> string \<Rightarrow> backup_client \<Rightarrow> (exn + unit) \<times> 'p world" where
  "do_remove client w server_id backup_client =
     (case ex_remove_client_from_target client (provider w) server_id backup_client of
        (r, p') \<Rightarrow> (r, \<lparr>provider = p', calls = calls w @ [Remove server_id backup_client]\<rparr>))"

definition do_add ::
  "'p driver \<Rightarrow> 'p world \<Rightarrow> string \<Rightarrow> string \<Rightarrow> string \<Rightarrow> string \<Rightarrow> string \<Rightarrow> string
     \<Rightarrow> (exn + backup_client) \<times> 'p world" where
  "do_add client w server_id client_type storage_policy schedule_policy trigger notify_email =
     (case ex_add_client_to_target client (provider w) server_id client_type storage_policy
             schedule_policy trigger notify_email of
        (r, p') \<Rightarrow>
          (r, \<lparr>provider = p',
               calls = calls w @ [Add server_id client_type storage_policy schedule_policy
                                    trigger notify_email]\<rparr>))"

definition do_update ::
  "'p driver \<Rightarrow> 'p world \<Rightarrow> string \<Rightarrow> (string \<rightharpoonup> string) \<Rightarrow> (exn + unit) \<times> 'p world" where
  "do_update client w server_id extra =
     (case update_target client (provider w) server_id extra of
        (r, p') \<Rightarrow> (r, \<lparr>provider = p', calls = calls w @ [Modify server_id extra]\<rparr>))"

subsection \<open>The module's parameters\<close>

text \<open>
  \<^verbatim>\<open>module.params\<close>, for the keys that \<^verbatim>\<open>handle_backup_client\<close> and the functions it calls
  read. A key without a default that the caller did not give is \<^verbatim>\<open>None\<close>.
\<close>

record params =
  state :: string
  client_type :: "string option"
  node_ids :: "string list"
  storage_policy :: "string option"
  schedule_policy :: "string option"
  notify_trigger :: string
  notify_email :: string

subsection \<open>The functions of the module\<close>

definition get_backup_client :: "backup_details \<Rightarrow> string option \<Rightarrow> backup_client option" where
  "get_backup_client details ct =
     (if length (clients details) > 0
      then find (\<lambda>client. Some (type (bc_type client)) = ct) (clients details)
      else None)"

text \<open>
  \<^verbatim>\<open>_backup_client_obj_to_dict\<close> reads five attributes of its argument. The argument is
  whatever \<^verbatim>\<open>get_backup_client\<close> returned; on \<^verbatim>\<open>None\<close> the first read, of \<^verbatim>\<open>id\<close>, raises.
\<close>

definition backup_client_obj_to_dict :: "backup_client option \<Rightarrow> exn + client_dict" where
  "backup_client_obj_to_dict backup_client =
     (case backup_client of
        None \<Rightarrow> Inl (AttributeError ''id'')
      | Some c \<Rightarrow>
          Inr [''id'' \<mapsto> bc_id c,
               ''client_type'' \<mapsto> type (bc_type c),
               ''storage_policy'' \<mapsto> bc_storage_policy c,
               ''schedule_policy'' \<mapsto> bc_schedule_policy c,
               ''download_url'' \<mapsto> bc_download_url c])"

definition endswith :: "string \<Rightarrow> string \<Rightarrow> bool" where
  "endswith s suf = suffix suf s"

definition get_backup_details_for_host ::
  "'p driver \<Rightarrow> 'p world \<Rightarrow> string \<Rightarrow> (outcome + backup_details) \<times> 'p world" where
  "get_backup_details_for_host client w server_id =
     (case do_get client w server_id of
        (Inr backup_details, w') \<Rightarrow> (Inr backup_details, w')
      | (Inl (DimensionDataAPIException m), w') \<Rightarrow>
          (if endswith m ''has not been provisioned for backup''
           then (Inl (fail_json (''Server '' @ server_id @ '' does not have backup enabled'')), w')
           else (Inl (fail_json (''Problem finding backup info for host: '' @ m)), w'))
      | (Inl e, w') \<Rightarrow> (Inl (uncaught e), w'))"

definition remove_client_from_server ::
  "'p driver \<Rightarrow> 'p world \<Rightarrow> string \<Rightarrow> backup_client \<Rightarrow> (outcome + unit) \<times> 'p world" where
  "remove_client_from_server client w server_id backup_client =
     (case do_remove client w server_id backup_client of
        (Inr u, w') \<Rightarrow> (Inr (), w')
      | (Inl (DimensionDataAPIException m), w') \<Rightarrow>
          (Inl (fail_json (''Failed removing client from host: '' @ m)), w')
      | (Inl e, w') \<Rightarrow> (Inl (uncaught e), w'))"

definition getkeyordie :: "string \<Rightarrow> string option \<Rightarrow> outcome + string" where
  "getkeyordie k v =
     (case v of
        None \<Rightarrow> Inl (fail_json (''Need key '' @ k @ '' for adding a client''))
      | Some s \<Rightarrow> Inr s)"

definition add_client_to_server ::
  "'p driver \<Rightarrow> params \<Rightarrow> 'p world \<Rightarrow> string \<Rightarrow> (outcome + backup_client) \<times> 'p world" where
  "add_client_to_server client ps w server_id =
     (case getkeyordie ''storage_policy'' (storage_policy ps) of
        Inl out \<Rightarrow> (Inl out, w)
      | Inr sp \<Rightarrow>
     (case getkeyordie ''schedule_policy'' (schedule_policy ps) of
        Inl out \<Rightarrow> (Inl out, w)
      | Inr sc \<Rightarrow>
     (case getkeyordie ''client_type'' (client_type ps) of
        Inl out \<Rightarrow> (Inl out, w)
      | Inr ct \<Rightarrow>
     (case do_add client w server_id ct sp sc (notify_trigger ps) (notify_email ps) of
        (Inr backup_client, w') \<Rightarrow> (Inr backup_client, w')
      | (Inl (DimensionDataAPIException m), w') \<Rightarrow>
          (Inl (fail_json (''Failed adding client to host: '' @ m)), w')
      | (Inl e, w') \<Rightarrow> (Inl (uncaught e), w')))))"

text \<open>\<^verbatim>\<open>modify_backup_for_server\<close> has no \<^verbatim>\<open>try\<close>: whatever the driver raises goes on up.\<close>

definition modify_backup_for_server ::
  "'p driver \<Rightarrow> 'p world \<Rightarrow> string \<Rightarrow> string \<Rightarrow> (outcome + unit) \<times> 'p world" where
  "modify_backup_for_server client w server_id service_plan =
     (case do_update client w server_id [''servicePlan'' \<mapsto> service_plan] of
        (Inr u, w') \<Rightarrow> (Inr (), w')
      | (Inl e, w') \<Rightarrow> (Inl (uncaught e), w'))"

text \<open>
  The body of the loop of \<^verbatim>\<open>handle_backup_client\<close>, for one \<^verbatim>\<open>server_id\<close>, with the
  branches in the order of the source. The loop's variables are \<^verbatim>\<open>changed\<close> and
  \<^verbatim>\<open>server_clients_return\<close>; the second branch passes the client it found, which is
  not \<^verbatim>\<open>None\<close> there.
\<close>

definition handle_server ::
  "'p driver \<Rightarrow> params \<Rightarrow> bool \<times> backups \<Rightarrow> 'p world \<Rightarrow> string
     \<Rightarrow> (outcome + bool \<times> backups) \<times> 'p world" where
  "handle_server client ps st w server_id =
     (case st of (changed, server_clients_return) \<Rightarrow>
     (case get_backup_details_for_host client w server_id of
        (Inl out, w1) \<Rightarrow> (Inl out, w1)
      | (Inr backup_details, w1) \<Rightarrow>
     (let backup_client = get_backup_client backup_details (client_type ps) in
      if state ps = ''absent'' \<and> backup_client = None then
        (Inr (changed, server_clients_return), w1)
      else if state ps = ''absent'' \<and> backup_client \<noteq> None then
        (case remove_client_from_server client w1 server_id (the backup_client) of
           (Inl out, w2) \<Rightarrow> (Inl out, w2)
         | (Inr u, w2) \<Rightarrow> (Inr (True, server_clients_return), w2))
      else if state ps = ''present'' \<and> backup_client = None then
        (case add_client_to_server client ps w1 server_id of
           (Inl out, w2) \<Rightarrow> (Inl out, w2)
         | (Inr added, w2) \<Rightarrow>
        (case get_backup_details_for_host client w2 server_id of
           (Inl out, w3) \<Rightarrow> (Inl out, w3)
         | (Inr backup_details', w3) \<Rightarrow>
        (case backup_client_obj_to_dict
                (get_backup_client backup_details' (client_type ps)) of
           Inl e \<Rightarrow> (Inl (uncaught e), w3)
         | Inr d \<Rightarrow> (Inr (True, server_clients_return(server_id \<mapsto> d)), w3))))
      else if state ps = ''present'' \<and> backup_client \<noteq> None then
        (case getattr backup_details ''sevice_plan'' of
           Inl e \<Rightarrow> (Inl (uncaught e), w1)
         | Inr existing_service_plan \<Rightarrow>
        (case modify_backup_for_server client w1 server_id existing_service_plan of
           (Inl out, w2) \<Rightarrow> (Inl out, w2)
         | (Inr u, w2) \<Rightarrow>
        (case backup_client_obj_to_dict backup_client of
           Inl e \<Rightarrow> (Inl (uncaught e), w2)
         | Inr d \<Rightarrow> (Inr (changed, server_clients_return(server_id \<mapsto> d)), w2))))
      else (Inl (fail_json ''Unhandled state''), w1))))"

fun for_node_ids ::
  "'p driver \<Rightarrow> params \<Rightarrow> bool \<times> backups \<Rightarrow> 'p world \<Rightarrow> string list
     \<Rightarrow> (outcome + bool \<times> backups) \<times> 'p world" where
  "for_node_ids client ps st w [] = (Inr st, w)"
| "for_node_ids client ps st w (server_id # rest) =
     (case handle_server client ps st w server_id of
        (Inl out, w') \<Rightarrow> (Inl out, w')
      | (Inr st', w') \<Rightarrow> for_node_ids client ps st' w' rest)"

definition handle_backup_client :: "'p driver \<Rightarrow> params \<Rightarrow> 'p world \<Rightarrow> outcome \<times> 'p world" where
  "handle_backup_client client ps w =
     (case for_node_ids client ps (False, Map.empty) w (node_ids ps) of
        (Inl out, w') \<Rightarrow> (out, w')
      | (Inr (changed, server_clients_return), w') \<Rightarrow>
          (exit_json changed ''Success'' server_clients_return, w'))"

section \<open>An in-memory provider for sample runs\<close>

text \<open>
  Sample runs need a driver. This one keeps, for every provisioned server, its backup
  details; a server it does not know has not been provisioned for backup.
\<close>

type_synonym inventory = "string \<rightharpoonup> backup_details"

definition not_provisioned :: "string \<Rightarrow> exn" where
  "not_provisioned server_id =
     DimensionDataAPIException (''Server '' @ server_id @ '' has not been provisioned for backup'')"

definition mem_get :: "inventory \<Rightarrow> string \<Rightarrow> (exn + backup_details) \<times> inventory" where
  "mem_get reg server_id =
     (case reg server_id of
        None \<Rightarrow> (Inl (not_provisioned server_id), reg)
      | Some d \<Rightarrow> (Inr d, reg))"

definition mem_remove :: "inventory \<Rightarrow> string \<Rightarrow> backup_client \<Rightarrow> (exn + unit) \<times> inventory" where
  "mem_remove reg server_id c =
     (case reg server_id of
        None \<Rightarrow> (Inl (not_provisioned server_id), reg)
      | Some d \<Rightarrow> (Inr (), reg(server_id \<mapsto> d\<lparr>clients := removeAll c (clients d)\<rparr>)))"

definition new_client :: "string \<Rightarrow> string \<Rightarrow> string \<Rightarrow> string \<Rightarrow> backup_client" where
  "new_client server_id ct sp sc =
     \<lparr>bc_id = ''client-of-'' @ server_id, bc_type = \<lparr>type = ct\<rparr>, bc_storage_policy = sp,
      bc_schedule_policy = sc, bc_download_url = ''https://backup.example/'' @ server_id\<rparr>"

definition mem_add ::
  "inventory \<Rightarrow> string \<Rightarrow> string \<Rightarrow> string \<Rightarrow> string \<Rightarrow> string \<Rightarrow> string
     \<Rightarrow> (exn + backup_client) \<times> inventory" where
  "mem_add reg server_id ct sp sc trigger email =
     (case reg server_id of
        None \<Rightarrow> (Inl (not_provisioned server_id), reg)
      | Some d \<Rightarrow>
          (Inr (new_client server_id ct sp sc),
           reg(server_id \<mapsto> d\<lparr>clients := clients d @ [new_client server_id ct sp sc]\<rparr>)))"

definition mem_update ::
  "inventory \<Rightarrow> string \<Rightarrow> (string \<rightharpoonup> string) \<Rightarrow> (exn + unit) \<times> inventory" where
  "mem_update reg server_id extra =
     (case reg server_id of
        None \<Rightarrow> (Inl (not_provisioned server_id), reg)
      | Some d \<Rightarrow> (Inr (), reg))"

definition memory_driver :: "inventory driver" where
  "memory_driver =
     \<lparr>ex_get_backup_details_for_target = mem_get,
      ex_remove_client_from_target = mem_remove,
      ex_add_client_to_target = mem_add,
      update_target = mem_update\<rparr>"

text \<open>Three faulty variants: an add that is refused, a remove that is refused, and an
  add that answers with a client but registers none.\<close>

definition refusing_add_driver :: "inventory driver" where
  "refusing_add_driver =
     memory_driver\<lparr>ex_add_client_to_target :=
       \<lambda>reg server_id ct sp sc trigger email.
         (Inl (DimensionDataAPIException ''quota exceeded''), reg)\<rparr>"

definition refusing_remove_driver :: "inventory driver" where
  "refusing_remove_driver =
     memory_driver\<lparr>ex_remove_client_from_target :=
       \<lambda>reg server_id c. (Inl (DimensionDataAPIException ''client is busy''), reg)\<rparr>"

definition forgetful_add_driver :: "inventory driver" where
  "forgetful_add_driver =
     memory_driver\<lparr>ex_add_client_to_target :=
       \<lambda>reg server_id ct sp sc trigger email. (Inr (new_client server_id ct sp sc), reg)\<rparr>"

text \<open>Sample objects and parameters.\<close>

definition mysql_client :: backup_client where
  "mysql_client =
     \<lparr>bc_id = ''c-1'', bc_type = \<lparr>type = ''MySQL''\<rparr>,
      bc_storage_policy = ''30 Day Storage Policy'', bc_schedule_policy = ''12AM - 6AM'',
      bc_download_url = ''https://backup.example/c-1''\<rparr>"

definition bare_details :: backup_details where
  "bare_details = \<lparr>clients = [], attrs = [''service_plan'' \<mapsto> ''Advanced'']\<rparr>"

definition mysql_details :: backup_details where
  "mysql_details = \<lparr>clients = [mysql_client], attrs = [''service_plan'' \<mapsto> ''Advanced'']\<rparr>"

text \<open>A details object that does have an attribute of the name the source reads.\<close>

definition sevice_details :: backup_details where
  "sevice_details = \<lparr>clients = [mysql_client], attrs = [''sevice_plan'' \<mapsto> ''Advanced'']\<rparr>"

definition sample_params :: "string \<Rightarrow> string list \<Rightarrow> params" where
  "sample_params st ids =
     \<lparr>state = st, client_type = Some ''MySQL'', node_ids = ids,
      storage_policy = Some ''30 Day Storage Policy'', schedule_policy = Some ''12AM - 6AM'',
      notify_trigger = ''ON_FAILURE'', notify_email = ''nobody@example.com''\<rparr>"

definition start :: "inventory \<Rightarrow> inventory world" where
  "start reg = \<lparr>provider = reg, calls = []\<rparr>"

definition offline_driver :: "inventory driver" where
  "offline_driver =
     memory_driver\<lparr>ex_get_backup_details_for_target :=
       \<lambda>reg server_id. (Inl (DimensionDataAPIException ''service unavailable''), reg)\<rparr>"

text \<open>The dictionaries, the details and the add call that the sample runs produce.\<close>

definition mysql_dict :: client_dict where
  "mysql_dict =
     [''id'' \<mapsto> ''c-1'', ''client_type'' \<mapsto> ''MySQL'',
      ''storage_policy'' \<mapsto> ''30 Day Storage Policy'', ''schedule_policy'' \<mapsto> ''12AM - 6AM'',
      ''download_url'' \<mapsto> ''https://backup.example/c-1'']"

definition added_dict :: "string \<Rightarrow> client_dict" where
  "added_dict server_id =
     [''id'' \<mapsto> ''client-of-'' @ server_id, ''client_type'' \<mapsto> ''MySQL'',
      ''storage_policy'' \<mapsto> ''30 Day Storage Policy'', ''schedule_policy'' \<mapsto> ''12AM - 6AM'',
      ''download_url'' \<mapsto> ''https://backup.example/'' @ server_id]"

definition added_details :: "string \<Rightarrow> backup_details" where
  "added_details server_id =
     bare_details\<lparr>clients :=
       [new_client server_id ''MySQL'' ''30 Day Storage Policy'' ''12AM - 6AM'']\<rparr>"

definition add_call :: "string \<Rightarrow> call" where
  "add_call server_id =
     Add server_id ''MySQL'' ''30 Day Storage Policy'' ''12AM - 6AM'' ''ON_FAILURE''
       ''nobody@example.com''"

section \<open>Runs that meet only servers which have the client\<close>


section \<open>Auxiliary facts\<close>

lemmas sample_defs = memory_driver_def mem_get_def mem_add_def mem_remove_def mem_update_def
  not_provisioned_def new_client_def start_def sample_params_def
  mysql_client_def bare_details_def mysql_details_def sevice_details_def
  refusing_add_driver_def refusing_remove_driver_def forgetful_add_driver_def offline_driver_def
  mysql_dict_def added_dict_def added_details_def add_call_def

lemmas run_defs = handle_backup_client_def handle_server_def get_backup_details_for_host_def
  do_get_def do_add_def do_remove_def do_update_def get_backup_client_def
  remove_client_from_server_def add_client_to_server_def getkeyordie_def
  modify_backup_for_server_def backup_client_obj_to_dict_def getattr_def endswith_def

lemma for_node_ids_append:
  "for_node_ids client ps st w (xs @ ys) =
     (case for_node_ids client ps st w xs of
        (Inl out, w') \<Rightarrow> (Inl out, w')
      | (Inr st', w') \<Rightarrow> for_node_ids client ps st' w' ys)"
  by (induction xs arbitrary: st w) (auto split: prod.splits sum.splits)

lemma get_details_no_exit:
  "get_backup_details_for_host client w sid = (Inl out, w') \<Longrightarrow> out \<noteq> exit_json c m b"
  by (auto simp: get_backup_details_for_host_def split: prod.splits sum.splits exn.splits if_splits)

lemma remove_no_exit:
  "remove_client_from_server client w sid bc = (Inl out, w') \<Longrightarrow> out \<noteq> exit_json c m b"
  by (auto simp: remove_client_from_server_def split: prod.splits sum.splits exn.splits if_splits)

lemma add_no_exit:
  "add_client_to_server client ps w sid = (Inl out, w') \<Longrightarrow> out \<noteq> exit_json c m b"
  by (auto simp: add_client_to_server_def getkeyordie_def split: prod.splits sum.splits exn.splits if_splits option.splits)

lemma modify_no_exit:
  "modify_backup_for_server client w sid sp = (Inl out, w') \<Longrightarrow> out \<noteq> exit_json c m b"
  by (auto simp: modify_backup_for_server_def split: prod.splits sum.splits exn.splits if_splits)

lemma handle_server_no_exit:
  "handle_server client ps st w sid = (Inl out, w') \<Longrightarrow> out \<noteq> exit_json c m b"
  unfolding handle_server_def Let_def
  by (auto split: prod.splits sum.splits if_splits dest: get_details_no_exit remove_no_exit add_no_exit modify_no_exit)

lemma get_details_ok:
  "ex_get_backup_details_for_target client (provider w) sid = (Inr d, p1)
   \<Longrightarrow> get_backup_details_for_host client w sid
       = (Inr d, \<lparr>provider = p1, calls = calls w @ [Read sid]\<rparr>)"
  by (simp add: get_backup_details_for_host_def do_get_def)

lemma get_details_api_error:
  "ex_get_backup_details_for_target client (provider w) sid = (Inl (DimensionDataAPIException m), p1)
   \<Longrightarrow> get_backup_details_for_host client w sid
       = (Inl (fail_json (if endswith m ''has not been provisioned for backup''
                          then ''Server '' @ sid @ '' does not have backup enabled''
                          else ''Problem finding backup info for host: '' @ m)),
          \<lparr>provider = p1, calls = calls w @ [Read sid]\<rparr>)"
  by (simp add: get_backup_details_for_host_def do_get_def)

lemma handle_server_read_failed:
  "get_backup_details_for_host client w sid = (Inl out, w1)
   \<Longrightarrow> handle_server client ps st w sid = (Inl out, w1)"
  by (simp add: handle_server_def split: prod.splits)

lemma handle_server_absent_none:
  "state ps = ''absent'' \<Longrightarrow> get_backup_details_for_host client w sid = (Inr d, w1)
   \<Longrightarrow> get_backup_client d (client_type ps) = None
   \<Longrightarrow> handle_server client ps (ch, ret) w sid = (Inr (ch, ret), w1)"
  by (simp add: handle_server_def)

lemma handle_server_absent_some:
  "state ps = ''absent'' \<Longrightarrow> get_backup_details_for_host client w sid = (Inr d, w1)
   \<Longrightarrow> get_backup_client d (client_type ps) = Some c
   \<Longrightarrow> handle_server client ps (ch, ret) w sid =
       (case remove_client_from_server client w1 sid c of
          (Inl out, w2) \<Rightarrow> (Inl out, w2)
        | (Inr u, w2) \<Rightarrow> (Inr (True, ret), w2))"
  by (simp add: handle_server_def)

lemma handle_server_present_none:
  "state ps = ''present'' \<Longrightarrow> get_backup_details_for_host client w sid = (Inr d, w1)
   \<Longrightarrow> get_backup_client d (client_type ps) = None
   \<Longrightarrow> handle_server client ps (ch, ret) w sid =
       (case add_client_to_server client ps w1 sid of
          (Inl out, w2) \<Rightarrow> (Inl out, w2)
        | (Inr added, w2) \<Rightarrow>
       (case get_backup_details_for_host client w2 sid of
          (Inl out, w3) \<Rightarrow> (Inl out, w3)
        | (Inr d', w3) \<Rightarrow>
       (case backup_client_obj_to_dict (get_backup_client d' (client_type ps)) of
          Inl e \<Rightarrow> (Inl (uncaught e), w3)
        | Inr cd \<Rightarrow> (Inr (True, ret(sid \<mapsto> cd)), w3))))"
  by (simp add: handle_server_def)

lemma handle_server_present_some:
  "state ps = ''present'' \<Longrightarrow> get_backup_details_for_host client w sid = (Inr d, w1)
   \<Longrightarrow> get_backup_client d (client_type ps) = Some c
   \<Longrightarrow> handle_server client ps (ch, ret) w sid =
       (case getattr d ''sevice_plan'' of
          Inl e \<Rightarrow> (Inl (uncaught e), w1)
        | Inr existing_service_plan \<Rightarrow>
       (case modify_backup_for_server client w1 sid existing_service_plan of
          (Inl out, w2) \<Rightarrow> (Inl out, w2)
        | (Inr u, w2) \<Rightarrow>
       (case backup_client_obj_to_dict (Some c) of
          Inl e \<Rightarrow> (Inl (uncaught e), w2)
        | Inr cd \<Rightarrow> (Inr (ch, ret(sid \<mapsto> cd)), w2))))"
  by (simp add: handle_server_def)

lemma run_stops_at:
  assumes "node_ids ps = pre @ sid # post"
    and "for_node_ids client ps (False, Map.empty) w pre = (Inr st, w1)"
    and "handle_server client ps st w1 sid = (Inl out, w2)"
  shows "handle_backup_client client ps w = (out, w2)"
  using assms by (simp add: handle_backup_client_def for_node_ids_append)

lemma add_ok:
  "storage_policy ps = Some sp \<Longrightarrow> schedule_policy ps = Some sc \<Longrightarrow> client_type ps = Some ct
   \<Longrightarrow> ex_add_client_to_target client (provider w) sid ct sp sc (notify_trigger ps) (notify_email ps)
         = (Inr c, p2)
   \<Longrightarrow> add_client_to_server client ps w sid
         = (Inr c, \<lparr>provider = p2,
                    calls = calls w @ [Add sid ct sp sc (notify_trigger ps) (notify_email ps)]\<rparr>)"
  by (simp add: add_client_to_server_def getkeyordie_def do_add_def)

lemma add_api_error:
  "storage_policy ps = Some sp \<Longrightarrow> schedule_policy ps = Some sc \<Longrightarrow> client_type ps = Some ct
   \<Longrightarrow> ex_add_client_to_target client (provider w) sid ct sp sc (notify_trigger ps) (notify_email ps)
         = (Inl (DimensionDataAPIException m), p2)
   \<Longrightarrow> add_client_to_server client ps w sid
         = (Inl (fail_json (''Failed adding client to host: '' @ m)),
            \<lparr>provider = p2,
             calls = calls w @ [Add sid ct sp sc (notify_trigger ps) (notify_email ps)]\<rparr>)"
  by (simp add: add_client_to_server_def getkeyordie_def do_add_def)

lemma for_node_ids_no_exit:
  "for_node_ids client ps st w ids = (Inl out, w') \<Longrightarrow> out \<noteq> exit_json c m b"
  by (induction ids arbitrary: st w)
     (auto split: prod.splits sum.splits dest: handle_server_no_exit)

lemma handle_server_failure_any_state:
  assumes "handle_server client ps st w sid = (Inl out, w')"
  shows "handle_server client ps st0 w sid = (Inl out, w')"
proof -
  obtain ch ret where st: "st = (ch, ret)" by (cases st)
  obtain ch0 ret0 where st0: "st0 = (ch0, ret0)" by (cases st0)
  obtain r1 w1 where g: "get_backup_details_for_host client w sid = (r1, w1)"
    by (cases "get_backup_details_for_host client w sid")
  show ?thesis
  proof (cases r1)
    case (Inl o1)
    with g assms show ?thesis by (simp add: handle_server_read_failed)
  next
    case (Inr d)
    with g have g': "get_backup_details_for_host client w sid = (Inr d, w1)" by simp
    consider (a) "state ps = ''absent''" | (p) "state ps = ''present''"
      | (u) "state ps \<noteq> ''absent''" "state ps \<noteq> ''present''" by blast
    then show ?thesis
    proof cases
      case a
      show ?thesis
      proof (cases "get_backup_client d (client_type ps)")
        case None
        with assms a g' st show ?thesis by (simp add: handle_server_absent_none)
      next
        case (Some c)
        with assms show ?thesis
          unfolding st st0 handle_server_absent_some [OF a g' Some]
          by (auto split: prod.splits sum.splits)
      qed
    next
      case p
      show ?thesis
      proof (cases "get_backup_client d (client_type ps)")
        case None
        with assms show ?thesis
          unfolding st st0 handle_server_present_none [OF p g' None]
          by (auto split: prod.splits sum.splits)
      next
        case (Some c)
        with assms show ?thesis
          unfolding st st0 handle_server_present_some [OF p g' Some]
          by (auto split: prod.splits sum.splits)
      qed
    next
      case u
      with assms g' show ?thesis by (simp add: handle_server_def st st0)
    qed
  qed
qed

lemma remove_result:
  "ex_remove_client_from_target client (provider w) sid c = (r, p2)
   \<Longrightarrow> snd (remove_client_from_server client w sid c)
         = \<lparr>provider = p2, calls = calls w @ [Remove sid c]\<rparr>"
  by (simp add: remove_client_from_server_def do_remove_def split: sum.splits exn.splits)

lemma remove_ok:
  "ex_remove_client_from_target client (provider w) sid c = (Inr u, p2)
   \<Longrightarrow> remove_client_from_server client w sid c
         = (Inr (), \<lparr>provider = p2, calls = calls w @ [Remove sid c]\<rparr>)"
  by (simp add: remove_client_from_server_def do_remove_def)

lemma remove_api_error:
  "ex_remove_client_from_target client (provider w) sid c = (Inl (DimensionDataAPIException m), p2)
   \<Longrightarrow> remove_client_from_server client w sid c
         = (Inl (fail_json (''Failed removing client from host: '' @ m)),
            \<lparr>provider = p2, calls = calls w @ [Remove sid c]\<rparr>)"
  by (simp add: remove_client_from_server_def do_remove_def)

lemma handle_server_absent_keeps_map:
  assumes "state ps = ''absent''"
    and "handle_server client ps (ch, ret) w sid = (Inr (ch', ret'), w')"
  shows "ret' = ret"
proof -
  obtain r1 w1 where g: "get_backup_details_for_host client w sid = (r1, w1)"
    by (cases "get_backup_details_for_host client w sid")
  show ?thesis
  proof (cases r1)
    case (Inl o1)
    with g assms show ?thesis by (simp add: handle_server_read_failed)
  next
    case (Inr d)
    with g have g': "get_backup_details_for_host client w sid = (Inr d, w1)" by simp
    show ?thesis
    proof (cases "get_backup_client d (client_type ps)")
      case None
      with assms g' show ?thesis by (simp add: handle_server_absent_none)
    next
      case (Some c)
      with assms(2) show ?thesis
        unfolding handle_server_absent_some [OF assms(1) g' Some]
        by (auto split: prod.splits sum.splits)
    qed
  qed
qed

lemma for_node_ids_absent_keeps_map:
  "state ps = ''absent'' \<Longrightarrow> for_node_ids client ps (ch, ret) w ids = (Inr (ch', ret'), w')
   \<Longrightarrow> ret' = ret"
proof (induction ids arbitrary: ch ret w)
  case Nil
  then show ?case by simp
next
  case (Cons sid ids)
  obtain r wa where step: "handle_server client ps (ch, ret) w sid = (r, wa)"
    by (cases "handle_server client ps (ch, ret) w sid")
  show ?case
  proof (cases r)
    case (Inl out)
    with step Cons.prems show ?thesis by simp
  next
    case (Inr st1)
    obtain ch1 ret1 where st1: "st1 = (ch1, ret1)" by (cases st1)
    from step Inr st1 Cons.prems(1) have "ret1 = ret"
      by (simp add: handle_server_absent_keeps_map)
    moreover from step Inr st1 Cons.prems
    have "for_node_ids client ps (ch1, ret1) wa ids = (Inr (ch', ret'), w')" by simp
    ultimately show ?thesis using Cons.IH [OF Cons.prems(1)] by blast
  qed
qed



lemma add_missing_key:
  "storage_policy ps = None \<or> schedule_policy ps = None \<or> client_type ps = None
   \<Longrightarrow> add_client_to_server client ps w sid
         = (Inl (fail_json (''Need key '' @
                   (if storage_policy ps = None then ''storage_policy''
                    else if schedule_policy ps = None then ''schedule_policy''
                    else ''client_type'')
                   @ '' for adding a client'')), w)"
  by (auto simp: add_client_to_server_def getkeyordie_def split: option.splits)

text \<open>
  The branch for a server that already has the client, both ways: when the details
  object has an attribute of the name the source reads, its value goes to one modify
  call and the client found before the call is what the result map gets; when it has
  none, the read raises before any modify call.
\<close>

lemma present_found_reapplies_plan:
  assumes "state ps = ''present''"
    and "ex_get_backup_details_for_target client (provider w) sid = (Inr d, p1)"
    and "get_backup_client d (client_type ps) = Some c"
    and "getattr d ''sevice_plan'' = Inr plan"
    and "update_target client p1 sid [''servicePlan'' \<mapsto> plan] = (Inr u, p2)"
  shows "handle_server client ps (ch, ret) w sid =
           (Inr (ch, ret(sid \<mapsto>
                   [''id'' \<mapsto> bc_id c,
                    ''client_type'' \<mapsto> type (bc_type c),
                    ''storage_policy'' \<mapsto> bc_storage_policy c,
                    ''schedule_policy'' \<mapsto> bc_schedule_policy c,
                    ''download_url'' \<mapsto> bc_download_url c])),
            \<lparr>provider = p2,
             calls = calls w @ [Read sid, Modify sid [''servicePlan'' \<mapsto> plan]]\<rparr>)"
proof -
  let ?w1 = "\<lparr>provider = p1, calls = calls w @ [Read sid]\<rparr>"
  have g: "get_backup_details_for_host client w sid = (Inr d, ?w1)"
    by (rule get_details_ok [OF assms(2)])
  have m: "modify_backup_for_server client ?w1 sid plan
             = (Inr (), \<lparr>provider = p2,
                         calls = calls w @ [Read sid, Modify sid [''servicePlan'' \<mapsto> plan]]\<rparr>)"
    using assms(5) by (simp add: modify_backup_for_server_def do_update_def)
  show ?thesis
    by (simp add: handle_server_present_some [OF assms(1) g assms(3)] assms(4) m
                  backup_client_obj_to_dict_def)
qed

lemma present_found_without_attribute:
  assumes "state ps = ''present''"
    and "ex_get_backup_details_for_target client (provider w) sid = (Inr d, p1)"
    and "get_backup_client d (client_type ps) = Some c"
    and "attrs d ''sevice_plan'' = None"
  shows "handle_server client ps (ch, ret) w sid =
           (Inl (uncaught (AttributeError ''sevice_plan'')),
            \<lparr>provider = p1, calls = calls w @ [Read sid]\<rparr>)"
proof -
  let ?w1 = "\<lparr>provider = p1, calls = calls w @ [Read sid]\<rparr>"
  have g: "get_backup_details_for_host client w sid = (Inr d, ?w1)"
    by (rule get_details_ok [OF assms(2)])
  have a: "getattr d ''sevice_plan'' = Inl (AttributeError ''sevice_plan'')"
    using assms(4) by (simp add: getattr_def)
  show ?thesis
    by (simp add: handle_server_present_some [OF assms(1) g assms(3)] a)
qed

lemma quota_message_has_no_target:
  "\<not> sublist ''srv-7'' ''Failed adding client to host: quota exceeded''"
  by code_simp

lemma not_provisioned_suffix:
  "endswith (''Server '' @ sid @ '' has not been provisioned for backup'')
     ''has not been provisioned for backup''"
  by (simp add: endswith_def suffix_def)

lemma unavailable_not_suffix:
  "\<not> endswith ''service unavailable'' ''has not been provisioned for backup''"
  by code_simp

section \<open>Properties\<close>




text \<open>
  C2 (as amended). With the desired state \<^verbatim>\<open>present\<close> and one of \<^verbatim>\<open>storage_policy\<close>,
  \<^verbatim>\<open>schedule_policy\<close>, \<^verbatim>\<open>client_type\<close> unset, the error \<^verbatim>\<open>Need key ... for adding a client\<close>
  is raised when the run reaches the first server that has no client of the desired
  type: after the read of that server (and after every call made for the servers before
  it), without an add call, and with no call after it. The key named is the first unset
  one in the order storage policy, schedule policy, client type.
\<close>

theorem missing_key_fails_at_first_add:
  assumes "state ps = ''present''"
    and "storage_policy ps = None \<or> schedule_policy ps = None \<or> client_type ps = None"
    and "node_ids ps = pre @ server_id # post"
    and "for_node_ids client ps (False, Map.empty) w pre = (Inr st, w1)"
    and "ex_get_backup_details_for_target client (provider w1) server_id = (Inr d, p1)"
    and "get_backup_client d (client_type ps) = None"
  shows "handle_backup_client client ps w =
           (fail_json (''Need key '' @
                   (if storage_policy ps = None then ''storage_policy''
                    else if schedule_policy ps = None then ''schedule_policy''
                    else ''client_type'')
                   @ '' for adding a client''),
            \<lparr>provider = p1, calls = calls w1 @ [Read server_id]\<rparr>)"
proof -
  obtain ch ret where st: "st = (ch, ret)" by (cases st)
  let ?w1 = "\<lparr>provider = p1, calls = calls w1 @ [Read server_id]\<rparr>"
  have g: "get_backup_details_for_host client w1 server_id = (Inr d, ?w1)"
    by (rule get_details_ok [OF assms(5)])
  have "handle_server client ps st w1 server_id =
          (Inl (fail_json (''Need key '' @
                   (if storage_policy ps = None then ''storage_policy''
                    else if schedule_policy ps = None then ''schedule_policy''
                    else ''client_type'')
                   @ '' for adding a client'')), ?w1)"
    unfolding st handle_server_present_none [OF assms(1) g assms(6)]
      add_missing_key [OF assms(2)]
    by simp
  with assms(3,4) show ?thesis by (rule run_stops_at)
qed

text \<open>
  The claim as first stated (no call at all before the error) fails: the read of the
  server comes first and is recorded.
\<close>

theorem fail_fast_counterexample:
  "handle_backup_client memory_driver
     ((sample_params ''present'' [''A''])\<lparr>storage_policy := None\<rparr>)
     (start [''A'' \<mapsto> bare_details])
   = (fail_json ''Need key storage_policy for adding a client'',
      \<lparr>provider = [''A'' \<mapsto> bare_details], calls = [Read ''A'']\<rparr>)"
  by (simp add: sample_defs run_defs)

text \<open>
  Two sample runs. In the first, the first server has the client and is modified without
  any check of the keys; the second has none, and the missing schedule policy ends the
  run there. In the second, the first server has no client and the missing storage
  policy ends the run after its read.
\<close>

theorem missing_key_fails_at_first_add_witness:
  "(handle_backup_client memory_driver
     ((sample_params ''present'' [''A'', ''C''])\<lparr>schedule_policy := None\<rparr>)
     (start [''A'' \<mapsto> sevice_details, ''C'' \<mapsto> bare_details])
   = (fail_json ''Need key schedule_policy for adding a client'',
      \<lparr>provider = [''A'' \<mapsto> sevice_details, ''C'' \<mapsto> bare_details],
       calls = [Read ''A'', Modify ''A'' [''servicePlan'' \<mapsto> ''Advanced''], Read ''C'']\<rparr>))
   \<and> (handle_backup_client memory_driver
     ((sample_params ''present'' [''C'', ''D''])\<lparr>storage_policy := None\<rparr>)
     (start [''C'' \<mapsto> bare_details, ''D'' \<mapsto> bare_details])
   = (fail_json ''Need key storage_policy for adding a client'',
      \<lparr>provider = [''C'' \<mapsto> bare_details, ''D'' \<mapsto> bare_details],
       calls = [Read ''C'']\<rparr>))"
proof
  show "handle_backup_client memory_driver
     ((sample_params ''present'' [''A'', ''C''])\<lparr>schedule_policy := None\<rparr>)
     (start [''A'' \<mapsto> sevice_details, ''C'' \<mapsto> bare_details])
   = (fail_json ''Need key schedule_policy for adding a client'',
      \<lparr>provider = [''A'' \<mapsto> sevice_details, ''C'' \<mapsto> bare_details],
       calls = [Read ''A'', Modify ''A'' [''servicePlan'' \<mapsto> ''Advanced''], Read ''C'']\<rparr>)"
  proof -
    let ?ps = "(sample_params ''present'' [''A'', ''C''])\<lparr>schedule_policy := None\<rparr>"
    let ?reg = "[''A'' \<mapsto> sevice_details, ''C'' \<mapsto> bare_details]"
    let ?w1 = "\<lparr>provider = ?reg, calls = [Read ''A'', Modify ''A'' [''servicePlan'' \<mapsto> ''Advanced'']]\<rparr>"
    have h1: "state ?ps = ''present''" by (simp add: sample_params_def)
    have h2: "storage_policy ?ps = None \<or> schedule_policy ?ps = None \<or> client_type ?ps = None"
      by (simp add: sample_params_def)
    have h3: "node_ids ?ps = [''A''] @ ''C'' # []" by (simp add: sample_params_def)
    have h4: "for_node_ids memory_driver ?ps (False, Map.empty) (start ?reg) [''A'']
                = (Inr (False, [''A'' \<mapsto> mysql_dict]), ?w1)"
      by (simp add: sample_defs run_defs)
    have h5: "ex_get_backup_details_for_target memory_driver (provider ?w1) ''C''
                = (Inr bare_details, ?reg)"
      by (simp add: sample_defs)
    have h6: "get_backup_client bare_details (client_type ?ps) = None"
      by (simp add: sample_defs get_backup_client_def)
    show ?thesis
      using missing_key_fails_at_first_add [OF h1 h2 h3 h4 h5 h6]
      by (simp add: sample_params_def)
  qed
next
  show "handle_backup_client memory_driver
     ((sample_params ''present'' [''C'', ''D''])\<lparr>storage_policy := None\<rparr>)
     (start [''C'' \<mapsto> bare_details, ''D'' \<mapsto> bare_details])
   = (fail_json ''Need key storage_policy for adding a client'',
      \<lparr>provider = [''C'' \<mapsto> bare_details, ''D'' \<mapsto> bare_details],
       calls = [Read ''C'']\<rparr>)"
  proof -
    let ?ps = "(sample_params ''present'' [''C'', ''D''])\<lparr>storage_policy := None\<rparr>"
    let ?reg = "[''C'' \<mapsto> bare_details, ''D'' \<mapsto> bare_details]"
    have h1: "state ?ps = ''present''" by (simp add: sample_params_def)
    have h2: "storage_policy ?ps = None \<or> schedule_policy ?ps = None \<or> client_type ?ps = None"
      by (simp add: sample_params_def)
    have h3: "node_ids ?ps = [] @ ''C'' # [''D'']" by (simp add: sample_params_def)
    have h4: "for_node_ids memory_driver ?ps (False, Map.empty) (start ?reg) []
                = (Inr (False, Map.empty), start ?reg)"
      by simp
    have h5: "ex_get_backup_details_for_target memory_driver (provider (start ?reg)) ''C''
                = (Inr bare_details, ?reg)"
      by (simp add: sample_defs)
    have h6: "get_backup_client bare_details (client_type ?ps) = None"
      by (simp add: sample_defs get_backup_client_def)
    show ?thesis
      using missing_key_fails_at_first_add [OF h1 h2 h3 h4 h5 h6]
      by (simp add: sample_params_def start_def)
  qed
qed

text \<open>
  C3. The claim: for a server that already has a client of the desired type, one modify
  call is made with the service plan read from the backup details, and the result map
  gets the client as it was before the call. The source reads the attribute
  \<^verbatim>\<open>sevice_plan\<close>. A details object whose attribute is \<^verbatim>\<open>service_plan\<close> (the spelling of
  the module's own \<^verbatim>\<open>existing_service_plan\<close> and \<^verbatim>\<open>servicePlan\<close>) has no such attribute:
  the read raises, no modify call is made, and the run ends with an exception that
  nothing catches.
\<close>

theorem misspelt_service_plan_attribute:
  "handle_backup_client memory_driver (sample_params ''present'' [''A''])
     (start [''A'' \<mapsto> mysql_details])
   = (uncaught (AttributeError ''sevice_plan''),
      \<lparr>provider = [''A'' \<mapsto> mysql_details], calls = [Read ''A'']\<rparr>)"
  by (simp add: sample_defs run_defs)

text \<open>
  C4 (as amended). When the driver's remove or add call raises
  \<^verbatim>\<open>DimensionDataAPIException\<close>, the run ends at once with \<^verbatim>\<open>fail_json\<close>; the message is
  \<^verbatim>\<open>Failed removing client from host: \<close> or \<^verbatim>\<open>Failed adding client to host: \<close> followed
  by the provider's message. It carries the provider's message and does not name the
  server.
\<close>

theorem write_failure_message:
  assumes "node_ids ps = pre @ server_id # post"
    and "for_node_ids client ps (False, Map.empty) w pre = (Inr st, w1)"
    and "ex_get_backup_details_for_target client (provider w1) server_id = (Inr d, p1)"
  shows "(state ps = ''absent'' \<and> get_backup_client d (client_type ps) = Some c \<and>
          ex_remove_client_from_target client p1 server_id c
            = (Inl (DimensionDataAPIException m), p2) \<longrightarrow>
            handle_backup_client client ps w =
              (fail_json (''Failed removing client from host: '' @ m),
               \<lparr>provider = p2, calls = calls w1 @ [Read server_id, Remove server_id c]\<rparr>))
       \<and> (state ps = ''present'' \<and> get_backup_client d (client_type ps) = None \<and>
          storage_policy ps = Some sp \<and> schedule_policy ps = Some sc \<and> client_type ps = Some ct \<and>
          ex_add_client_to_target client p1 server_id ct sp sc (notify_trigger ps) (notify_email ps)
            = (Inl (DimensionDataAPIException m), p2) \<longrightarrow>
            handle_backup_client client ps w =
              (fail_json (''Failed adding client to host: '' @ m),
               \<lparr>provider = p2,
                calls = calls w1 @ [Read server_id,
                          Add server_id ct sp sc (notify_trigger ps) (notify_email ps)]\<rparr>))"
proof (intro conjI impI)
  obtain ch ret where st: "st = (ch, ret)" by (cases st)
  let ?w1 = "\<lparr>provider = p1, calls = calls w1 @ [Read server_id]\<rparr>"
  have g: "get_backup_details_for_host client w1 server_id = (Inr d, ?w1)"
    by (rule get_details_ok [OF assms(3)])
  {
    assume h: "state ps = ''absent'' \<and> get_backup_client d (client_type ps) = Some c \<and>
          ex_remove_client_from_target client p1 server_id c
            = (Inl (DimensionDataAPIException m), p2)"
    then have r: "remove_client_from_server client ?w1 server_id c
         = (Inl (fail_json (''Failed removing client from host: '' @ m)),
            \<lparr>provider = p2, calls = calls w1 @ [Read server_id, Remove server_id c]\<rparr>)"
      using remove_api_error [of client ?w1 server_id c m p2] by simp
    from h have h1: "state ps = ''absent''"
      and h2: "get_backup_client d (client_type ps) = Some c" by blast+
    have "handle_server client ps st w1 server_id =
          (Inl (fail_json (''Failed removing client from host: '' @ m)),
            \<lparr>provider = p2, calls = calls w1 @ [Read server_id, Remove server_id c]\<rparr>)"
      unfolding st handle_server_absent_some [OF h1 g h2] r by simp
    with assms(1,2) show "handle_backup_client client ps w =
              (fail_json (''Failed removing client from host: '' @ m),
               \<lparr>provider = p2, calls = calls w1 @ [Read server_id, Remove server_id c]\<rparr>)"
      by (rule run_stops_at)
  }
  {
    assume h: "state ps = ''present'' \<and> get_backup_client d (client_type ps) = None \<and>
          storage_policy ps = Some sp \<and> schedule_policy ps = Some sc \<and> client_type ps = Some ct \<and>
          ex_add_client_to_target client p1 server_id ct sp sc (notify_trigger ps) (notify_email ps)
            = (Inl (DimensionDataAPIException m), p2)"
    then have a: "add_client_to_server client ps ?w1 server_id
         = (Inl (fail_json (''Failed adding client to host: '' @ m)),
            \<lparr>provider = p2,
                calls = calls w1 @ [Read server_id,
                          Add server_id ct sp sc (notify_trigger ps) (notify_email ps)]\<rparr>)"
      using add_api_error [of ps sp sc ct client ?w1 server_id m p2] by simp
    from h have h1: "state ps = ''present''"
      and h2: "get_backup_client d (client_type ps) = None" by blast+
    have "handle_server client ps st w1 server_id =
          (Inl (fail_json (''Failed adding client to host: '' @ m)),
            \<lparr>provider = p2,
                calls = calls w1 @ [Read server_id,
                          Add server_id ct sp sc (notify_trigger ps) (notify_email ps)]\<rparr>)"
      unfolding st handle_server_present_none [OF h1 g h2] a by simp
    with assms(1,2) show "handle_backup_client client ps w =
              (fail_json (''Failed adding client to host: '' @ m),
               \<lparr>provider = p2,
                calls = calls w1 @ [Read server_id,
                          Add server_id ct sp sc (notify_trigger ps) (notify_email ps)]\<rparr>)"
      by (rule run_stops_at)
  }
qed

text \<open>
  The claim as first stated (the message names the failing server) fails: the id of the
  server does not occur in the message.
\<close>

theorem write_failure_counterexample:
  "handle_backup_client refusing_add_driver (sample_params ''present'' [''srv-7''])
     (start [''srv-7'' \<mapsto> bare_details])
   = (fail_json ''Failed adding client to host: quota exceeded'',
      \<lparr>provider = [''srv-7'' \<mapsto> bare_details],
       calls = [Read ''srv-7'', add_call ''srv-7'']\<rparr>)
   \<and> \<not> sublist ''srv-7'' ''Failed adding client to host: quota exceeded''"
  using quota_message_has_no_target by (simp add: sample_defs run_defs)

text \<open>Sample runs: a refused remove and a refused add.\<close>

theorem write_failure_message_witness:
  "handle_backup_client refusing_remove_driver (sample_params ''absent'' [''A''])
     (start [''A'' \<mapsto> mysql_details])
   = (fail_json ''Failed removing client from host: client is busy'',
      \<lparr>provider = [''A'' \<mapsto> mysql_details],
       calls = [Read ''A'', Remove ''A'' mysql_client]\<rparr>)
   \<and> handle_backup_client refusing_add_driver (sample_params ''present'' [''C''])
       (start [''C'' \<mapsto> bare_details])
     = (fail_json ''Failed adding client to host: quota exceeded'',
        \<lparr>provider = [''C'' \<mapsto> bare_details], calls = [Read ''C'', add_call ''C'']\<rparr>)"
proof
  let ?ps = "sample_params ''absent'' [''A'']"
  let ?reg = "[''A'' \<mapsto> mysql_details]"
  have h1: "node_ids ?ps = [] @ ''A'' # []" by (simp add: sample_params_def)
  have h2: "for_node_ids refusing_remove_driver ?ps (False, Map.empty) (start ?reg) []
              = (Inr (False, Map.empty), start ?reg)" by simp
  have h3: "ex_get_backup_details_for_target refusing_remove_driver (provider (start ?reg)) ''A''
              = (Inr mysql_details, ?reg)"
    by (simp add: sample_defs)
  have h4: "state ?ps = ''absent'' \<and>
            get_backup_client mysql_details (client_type ?ps) = Some mysql_client \<and>
            ex_remove_client_from_target refusing_remove_driver ?reg ''A'' mysql_client
              = (Inl (DimensionDataAPIException ''client is busy''), ?reg)"
    by (simp add: sample_defs get_backup_client_def)
  from write_failure_message [OF h1 h2 h3, THEN conjunct1, THEN mp, OF h4]
  show "handle_backup_client refusing_remove_driver ?ps (start ?reg)
          = (fail_json ''Failed removing client from host: client is busy'',
             \<lparr>provider = ?reg, calls = [Read ''A'', Remove ''A'' mysql_client]\<rparr>)"
    by (simp add: start_def)
next
  let ?ps = "sample_params ''present'' [''C'']"
  let ?reg = "[''C'' \<mapsto> bare_details]"
  have h1: "node_ids ?ps = [] @ ''C'' # []" by (simp add: sample_params_def)
  have h2: "for_node_ids refusing_add_driver ?ps (False, Map.empty) (start ?reg) []
              = (Inr (False, Map.empty), start ?reg)" by simp
  have h3: "ex_get_backup_details_for_target refusing_add_driver (provider (start ?reg)) ''C''
              = (Inr bare_details, ?reg)"
    by (simp add: sample_defs)
  have h4: "state ?ps = ''present'' \<and>
            get_backup_client bare_details (client_type ?ps) = None \<and>
            storage_policy ?ps = Some ''30 Day Storage Policy'' \<and>
            schedule_policy ?ps = Some ''12AM - 6AM'' \<and>
            client_type ?ps = Some ''MySQL'' \<and>
            ex_add_client_to_target refusing_add_driver ?reg ''C'' ''MySQL''
              ''30 Day Storage Policy'' ''12AM - 6AM'' (notify_trigger ?ps) (notify_email ?ps)
              = (Inl (DimensionDataAPIException ''quota exceeded''), ?reg)"
    by (simp add: sample_defs get_backup_client_def)
  from write_failure_message [OF h1 h2 h3, THEN conjunct2, THEN mp, OF h4]
  show "handle_backup_client refusing_add_driver ?ps (start ?reg)
          = (fail_json ''Failed adding client to host: quota exceeded'',
             \<lparr>provider = ?reg, calls = [Read ''C'', add_call ''C'']\<rparr>)"
    by (simp add: start_def sample_params_def add_call_def)
qed

text \<open>
  C5. With the desired state \<^verbatim>\<open>present\<close>, for a server without a client of the desired
  type (the three keys being set, and the add and the second read succeeding): there is
  one add call, then one more read of the server; the result map gets, under the
  server's id, the five entries of the client found by that second read; and \<^verbatim>\<open>changed\<close>
  becomes true.
\<close>

theorem present_missing_client_is_added:
  assumes "state ps = ''present''"
    and "ex_get_backup_details_for_target client (provider w) server_id = (Inr d1, p1)"
    and "get_backup_client d1 (client_type ps) = None"
    and "storage_policy ps = Some sp" and "schedule_policy ps = Some sc"
    and "client_type ps = Some ct"
    and "ex_add_client_to_target client p1 server_id ct sp sc (notify_trigger ps) (notify_email ps)
           = (Inr c, p2)"
    and "ex_get_backup_details_for_target client p2 server_id = (Inr d2, p3)"
    and "get_backup_client d2 (client_type ps) = Some nc"
  shows "handle_server client ps (changed, server_clients_return) w server_id =
           (Inr (True,
                 server_clients_return(server_id \<mapsto>
                   [''id'' \<mapsto> bc_id nc,
                    ''client_type'' \<mapsto> type (bc_type nc),
                    ''storage_policy'' \<mapsto> bc_storage_policy nc,
                    ''schedule_policy'' \<mapsto> bc_schedule_policy nc,
                    ''download_url'' \<mapsto> bc_download_url nc])),
            \<lparr>provider = p3,
             calls = calls w @ [Read server_id,
                                Add server_id ct sp sc (notify_trigger ps) (notify_email ps),
                                Read server_id]\<rparr>)"
proof -
  let ?w1 = "\<lparr>provider = p1, calls = calls w @ [Read server_id]\<rparr>"
  let ?w2 = "\<lparr>provider = p2,
             calls = calls w @ [Read server_id,
                                Add server_id ct sp sc (notify_trigger ps) (notify_email ps)]\<rparr>"
  have r1: "get_backup_details_for_host client w server_id = (Inr d1, ?w1)"
    by (rule get_details_ok [OF assms(2)])
  have a: "add_client_to_server client ps ?w1 server_id = (Inr c, ?w2)"
    using add_ok [OF assms(4,5,6), of client ?w1 server_id c p2] assms(7) by simp
  have r2: "get_backup_details_for_host client ?w2 server_id
              = (Inr d2, \<lparr>provider = p3,
                          calls = calls w @ [Read server_id,
                                 Add server_id ct sp sc (notify_trigger ps) (notify_email ps),
                                 Read server_id]\<rparr>)"
    using get_details_ok [of client ?w2 server_id d2 p3] assms(8) by simp
  show ?thesis
    by (simp add: handle_server_present_none [OF assms(1) r1 assms(3)] a r2 assms(9)
                  backup_client_obj_to_dict_def)
qed

text \<open>A sample run with the in-memory provider.\<close>

theorem present_missing_client_is_added_witness:
  "handle_server memory_driver (sample_params ''present'' [''C'']) (False, Map.empty)
     (start [''C'' \<mapsto> bare_details]) ''C''
   = (Inr (True, [''C'' \<mapsto> added_dict ''C'']),
      \<lparr>provider = [''C'' \<mapsto> added_details ''C''],
       calls = [Read ''C'', add_call ''C'', Read ''C'']\<rparr>)"
proof -
  let ?ps = "sample_params ''present'' [''C'']"
  let ?nc = "new_client ''C'' ''MySQL'' ''30 Day Storage Policy'' ''12AM - 6AM''"
  have h1: "state ?ps = ''present''" by (simp add: sample_params_def)
  have h2: "ex_get_backup_details_for_target memory_driver
              (provider (start [''C'' \<mapsto> bare_details])) ''C''
              = (Inr bare_details, [''C'' \<mapsto> bare_details])"
    by (simp add: sample_defs)
  have h3: "get_backup_client bare_details (client_type ?ps) = None"
    by (simp add: sample_defs get_backup_client_def)
  have h4: "storage_policy ?ps = Some ''30 Day Storage Policy''"
    and h5: "schedule_policy ?ps = Some ''12AM - 6AM''"
    and h6: "client_type ?ps = Some ''MySQL''"
    by (simp_all add: sample_params_def)
  have h7: "ex_add_client_to_target memory_driver [''C'' \<mapsto> bare_details] ''C'' ''MySQL''
              ''30 Day Storage Policy'' ''12AM - 6AM'' (notify_trigger ?ps) (notify_email ?ps)
              = (Inr ?nc, [''C'' \<mapsto> added_details ''C''])"
    by (simp add: sample_defs)
  have h8: "ex_get_backup_details_for_target memory_driver [''C'' \<mapsto> added_details ''C''] ''C''
              = (Inr (added_details ''C''), [''C'' \<mapsto> added_details ''C''])"
    by (simp add: sample_defs)
  have h9: "get_backup_client (added_details ''C'') (client_type ?ps) = Some ?nc"
    by (simp add: sample_defs get_backup_client_def)
  show ?thesis
    using present_missing_client_is_added [OF h1 h2 h3 h4 h5 h6 h7 h8 h9, of False Map.empty]
    by (simp add: sample_defs)
qed

text \<open>
  C6. With the desired state \<^verbatim>\<open>absent\<close>: the result map of a run that exits is empty, so
  no server is in it; a server without a client of the desired type costs one read and
  no write, and leaves \<^verbatim>\<open>changed\<close> as it was; a server with such a client costs one read
  and exactly one remove call, and once the remove has returned \<^verbatim>\<open>changed\<close> is true.
\<close>

theorem absent_state_handling:
  assumes "state ps = ''absent''"
  shows "(handle_backup_client client ps w0 = (exit_json changed m b, w') \<longrightarrow> b = Map.empty)
       \<and> (ex_get_backup_details_for_target client (provider w) server_id = (Inr d, p1) \<and>
          get_backup_client d (client_type ps) = None \<longrightarrow>
            handle_server client ps (ch, ret) w server_id
              = (Inr (ch, ret), \<lparr>provider = p1, calls = calls w @ [Read server_id]\<rparr>))
       \<and> (ex_get_backup_details_for_target client (provider w) server_id = (Inr d, p1) \<and>
          get_backup_client d (client_type ps) = Some c \<and>
          ex_remove_client_from_target client p1 server_id c = (r, p2) \<longrightarrow>
            snd (handle_server client ps (ch, ret) w server_id)
              = \<lparr>provider = p2, calls = calls w @ [Read server_id, Remove server_id c]\<rparr> \<and>
            (r = Inr () \<longrightarrow>
               fst (handle_server client ps (ch, ret) w server_id) = Inr (True, ret)))"
proof (intro conjI impI)
  assume ex: "handle_backup_client client ps w0 = (exit_json changed m b, w')"
  obtain r0 wa where run: "for_node_ids client ps (False, Map.empty) w0 (node_ids ps) = (r0, wa)"
    by (cases "for_node_ids client ps (False, Map.empty) w0 (node_ids ps)")
  show "b = Map.empty"
  proof (cases r0)
    case (Inl out)
    with run ex for_node_ids_no_exit [of client ps "(False, Map.empty)" w0 "node_ids ps" out wa changed m b]
    show ?thesis by (simp add: handle_backup_client_def)
  next
    case (Inr st1)
    with run ex have "for_node_ids client ps (False, Map.empty) w0 (node_ids ps) = (Inr (changed, b), w')"
      by (simp add: handle_backup_client_def split: prod.splits)
    with assms show ?thesis by (rule for_node_ids_absent_keeps_map)
  qed
next
  assume h: "ex_get_backup_details_for_target client (provider w) server_id = (Inr d, p1) \<and>
          get_backup_client d (client_type ps) = None"
  then show "handle_server client ps (ch, ret) w server_id
              = (Inr (ch, ret), \<lparr>provider = p1, calls = calls w @ [Read server_id]\<rparr>)"
    using assms by (simp add: handle_server_absent_none get_details_ok)
next
  assume h: "ex_get_backup_details_for_target client (provider w) server_id = (Inr d, p1) \<and>
          get_backup_client d (client_type ps) = Some c \<and>
          ex_remove_client_from_target client p1 server_id c = (r, p2)"
  let ?w1 = "\<lparr>provider = p1, calls = calls w @ [Read server_id]\<rparr>"
  from h have g: "get_backup_details_for_host client w server_id = (Inr d, ?w1)"
    by (simp add: get_details_ok)
  from h have hs: "handle_server client ps (ch, ret) w server_id =
       (case remove_client_from_server client ?w1 server_id c of
          (Inl out, w2) \<Rightarrow> (Inl out, w2)
        | (Inr u, w2) \<Rightarrow> (Inr (True, ret), w2))"
    using handle_server_absent_some [OF assms g] by simp
  from h have sn: "snd (remove_client_from_server client ?w1 server_id c)
         = \<lparr>provider = p2, calls = calls w @ [Read server_id, Remove server_id c]\<rparr>"
    using remove_result [of client ?w1 server_id c r p2] by simp
  then show "snd (handle_server client ps (ch, ret) w server_id)
              = \<lparr>provider = p2, calls = calls w @ [Read server_id, Remove server_id c]\<rparr>"
    unfolding hs by (auto split: prod.splits sum.splits)
  show "fst (handle_server client ps (ch, ret) w server_id) = Inr (True, ret)" if "r = Inr ()"
  proof -
    from h that have "remove_client_from_server client ?w1 server_id c
         = (Inr (), \<lparr>provider = p2, calls = calls ?w1 @ [Remove server_id c]\<rparr>)"
      using remove_ok [of client ?w1 server_id c "()" p2] by simp
    then show ?thesis unfolding hs by simp
  qed
qed

text \<open>A sample run over one server without a MySQL client and one with.\<close>

theorem absent_state_handling_witness:
  "handle_backup_client memory_driver (sample_params ''absent'' [''B'', ''A''])
     (start [''B'' \<mapsto> bare_details, ''A'' \<mapsto> mysql_details])
   = (exit_json True ''Success'' Map.empty,
      \<lparr>provider = [''B'' \<mapsto> bare_details, ''A'' \<mapsto> mysql_details\<lparr>clients := []\<rparr>],
       calls = [Read ''B'', Read ''A'', Remove ''A'' mysql_client]\<rparr>)
   \<and> handle_server memory_driver (sample_params ''absent'' [''B'', ''A'']) (False, Map.empty)
       (start [''B'' \<mapsto> bare_details, ''A'' \<mapsto> mysql_details]) ''B''
     = (Inr (False, Map.empty),
        \<lparr>provider = [''B'' \<mapsto> bare_details, ''A'' \<mapsto> mysql_details], calls = [Read ''B'']\<rparr>)
   \<and> snd (handle_server memory_driver (sample_params ''absent'' [''B'', ''A'']) (False, Map.empty)
            (start [''B'' \<mapsto> bare_details, ''A'' \<mapsto> mysql_details]) ''A'')
     = \<lparr>provider = [''B'' \<mapsto> bare_details, ''A'' \<mapsto> mysql_details\<lparr>clients := []\<rparr>],
        calls = [Read ''A'', Remove ''A'' mysql_client]\<rparr>
   \<and> fst (handle_server memory_driver (sample_params ''absent'' [''B'', ''A'']) (False, Map.empty)
            (start [''B'' \<mapsto> bare_details, ''A'' \<mapsto> mysql_details]) ''A'')
     = Inr (True, Map.empty)"
proof -
  let ?ps = "sample_params ''absent'' [''B'', ''A'']"
  let ?reg = "[''B'' \<mapsto> bare_details, ''A'' \<mapsto> mysql_details]"
  let ?reg' = "[''B'' \<mapsto> bare_details, ''A'' \<mapsto> mysql_details\<lparr>clients := []\<rparr>]"
  let ?wend = "\<lparr>provider = ?reg', calls = [Read ''B'', Read ''A'', Remove ''A'' mysql_client]\<rparr>"
  have st: "state ?ps = ''absent''" by (simp add: sample_params_def)
  have run: "handle_backup_client memory_driver ?ps (start ?reg)
               = (exit_json True ''Success'' Map.empty, ?wend)"
    by (simp add: sample_defs run_defs)
  have gB: "ex_get_backup_details_for_target memory_driver (provider (start ?reg)) ''B''
              = (Inr bare_details, ?reg) \<and>
            get_backup_client bare_details (client_type ?ps) = None"
    by (simp add: sample_defs get_backup_client_def)
  have gA: "ex_get_backup_details_for_target memory_driver (provider (start ?reg)) ''A''
              = (Inr mysql_details, ?reg) \<and>
            get_backup_client mysql_details (client_type ?ps) = Some mysql_client \<and>
            ex_remove_client_from_target memory_driver ?reg ''A'' mysql_client = (Inr (), ?reg')"
    by (simp add: sample_defs get_backup_client_def)
  note inst = absent_state_handling [OF st, of memory_driver]
  have c1: "(Map.empty :: backups) = Map.empty"
    using inst [of "start ?reg" True "''Success''" Map.empty ?wend, THEN conjunct1, THEN mp, OF run] .
  have c2: "handle_server memory_driver ?ps (False, Map.empty) (start ?reg) ''B''
     = (Inr (False, Map.empty), \<lparr>provider = ?reg, calls = [Read ''B'']\<rparr>)"
    using inst [THEN conjunct2, THEN conjunct1, THEN mp, OF gB, of False Map.empty]
    by (simp add: start_def)
  have c3: "snd (handle_server memory_driver ?ps (False, Map.empty) (start ?reg) ''A'')
              = \<lparr>provider = ?reg', calls = [Read ''A'', Remove ''A'' mysql_client]\<rparr>
            \<and> fst (handle_server memory_driver ?ps (False, Map.empty) (start ?reg) ''A'')
                = Inr (True, Map.empty)"
    using inst [THEN conjunct2, THEN conjunct2, THEN mp, OF gA, of False Map.empty]
    by (simp add: start_def)
  from run c1 c2 c3 show ?thesis by simp
qed

text \<open>
  C7. When the read of a server's backup details raises \<^verbatim>\<open>DimensionDataAPIException\<close>,
  the run ends there with \<^verbatim>\<open>fail_json\<close>: if the provider's message ends with
  \<^verbatim>\<open>has not been provisioned for backup\<close> the message is
  \<^verbatim>\<open>Server <id> does not have backup enabled\<close>, with the server's id; otherwise it is
  \<^verbatim>\<open>Problem finding backup info for host: \<close> followed by the provider's message. The
  failed read is the last call: the servers after it in the list are not handled.
\<close>

theorem read_failure_aborts_run:
  assumes "node_ids ps = pre @ server_id # post"
    and "for_node_ids client ps (False, Map.empty) w pre = (Inr st, w1)"
    and "ex_get_backup_details_for_target client (provider w1) server_id
           = (Inl (DimensionDataAPIException m), p1)"
  shows "handle_backup_client client ps w =
           (fail_json (if endswith m ''has not been provisioned for backup''
                       then ''Server '' @ server_id @ '' does not have backup enabled''
                       else ''Problem finding backup info for host: '' @ m),
            \<lparr>provider = p1, calls = calls w1 @ [Read server_id]\<rparr>)"
proof -
  have "handle_server client ps st w1 server_id =
          (Inl (fail_json (if endswith m ''has not been provisioned for backup''
                       then ''Server '' @ server_id @ '' does not have backup enabled''
                       else ''Problem finding backup info for host: '' @ m)),
           \<lparr>provider = p1, calls = calls w1 @ [Read server_id]\<rparr>)"
    by (rule handle_server_read_failed) (rule get_details_api_error [OF assms(3)])
  with assms(1,2) show ?thesis by (rule run_stops_at)
qed

text \<open>Sample runs: a server that is not provisioned, and a provider that is unavailable.\<close>

theorem read_failure_aborts_run_witness:
  "(handle_backup_client memory_driver (sample_params ''absent'' [''A'', ''B'', ''C''])
     (start [''A'' \<mapsto> bare_details, ''C'' \<mapsto> bare_details])
   = (fail_json ''Server B does not have backup enabled'',
      \<lparr>provider = [''A'' \<mapsto> bare_details, ''C'' \<mapsto> bare_details],
       calls = [Read ''A'', Read ''B'']\<rparr>))
   \<and> (handle_backup_client offline_driver (sample_params ''present'' [''A'', ''B''])
     (start [''A'' \<mapsto> bare_details])
   = (fail_json ''Problem finding backup info for host: service unavailable'',
      \<lparr>provider = [''A'' \<mapsto> bare_details], calls = [Read ''A'']\<rparr>))"
proof
  show "handle_backup_client memory_driver (sample_params ''absent'' [''A'', ''B'', ''C''])
     (start [''A'' \<mapsto> bare_details, ''C'' \<mapsto> bare_details])
   = (fail_json ''Server B does not have backup enabled'',
      \<lparr>provider = [''A'' \<mapsto> bare_details, ''C'' \<mapsto> bare_details],
       calls = [Read ''A'', Read ''B'']\<rparr>)"
  proof -
    let ?ps = "sample_params ''absent'' [''A'', ''B'', ''C'']"
    let ?reg = "[''A'' \<mapsto> bare_details, ''C'' \<mapsto> bare_details]"
    have h1: "node_ids ?ps = [''A''] @ ''B'' # [''C'']"
      by (simp add: sample_params_def)
    have h2: "for_node_ids memory_driver ?ps (False, Map.empty) (start ?reg) [''A'']
                = (Inr (False, Map.empty), \<lparr>provider = ?reg, calls = [Read ''A'']\<rparr>)"
      by (simp add: sample_defs run_defs)
    have h3: "ex_get_backup_details_for_target memory_driver
                (provider \<lparr>provider = ?reg, calls = [Read ''A'']\<rparr>) ''B''
                = (Inl (DimensionDataAPIException
                          (''Server '' @ ''B'' @ '' has not been provisioned for backup'')), ?reg)"
      by (simp add: sample_defs)
    show ?thesis
      using read_failure_aborts_run [OF h1 h2 h3] not_provisioned_suffix [of "''B''"]
      by simp
  qed
next
  show "handle_backup_client offline_driver (sample_params ''present'' [''A'', ''B''])
     (start [''A'' \<mapsto> bare_details])
   = (fail_json ''Problem finding backup info for host: service unavailable'',
      \<lparr>provider = [''A'' \<mapsto> bare_details], calls = [Read ''A'']\<rparr>)"
  proof -
    let ?ps = "sample_params ''present'' [''A'', ''B'']"
    let ?reg = "[''A'' \<mapsto> bare_details]"
    have h1: "node_ids ?ps = [] @ ''A'' # [''B'']" by (simp add: sample_params_def)
    have h2: "for_node_ids offline_driver ?ps (False, Map.empty) (start ?reg) []
                = (Inr (False, Map.empty), start ?reg)" by simp
    have h3: "ex_get_backup_details_for_target offline_driver (provider (start ?reg)) ''A''
                = (Inl (DimensionDataAPIException ''service unavailable''), ?reg)"
      by (simp add: sample_defs)
    show ?thesis
      using read_failure_aborts_run [OF h1 h2 h3] unavailable_not_suffix
      by (simp add: start_def)
  qed
qed

text \<open>
  C8. A run exits with the report only if every server of the list was handled without
  a fatal error: for every position in the list, the loop reached it and the body
  returned normally. And when the body fails at some server, the run ends with that
  failure, which is a \<^verbatim>\<open>fail_json\<close> message or an uncaught exception and never a report;
  it is the same failure whatever \<^verbatim>\<open>changed\<close> and the result map held by then, so what
  the earlier servers had added to them is lost.
\<close>

theorem no_partial_success_report:
  assumes "node_ids ps = pre @ server_id # post"
  shows "(handle_backup_client client ps w = (exit_json changed m b, w') \<longrightarrow>
            (\<exists>st w1 st' w2.
               for_node_ids client ps (False, Map.empty) w pre = (Inr st, w1) \<and>
               handle_server client ps st w1 server_id = (Inr st', w2)))
       \<and> (for_node_ids client ps (False, Map.empty) w pre = (Inr st, w1) \<and>
          handle_server client ps st w1 server_id = (Inl out, w2) \<longrightarrow>
            handle_backup_client client ps w = (out, w2) \<and>
            (\<forall>c m' b'. out \<noteq> exit_json c m' b') \<and>
            (\<forall>st0. handle_server client ps st0 w1 server_id = (Inl out, w2)))"
proof (intro conjI impI)
  assume ex: "handle_backup_client client ps w = (exit_json changed m b, w')"
  obtain r wa where pre: "for_node_ids client ps (False, Map.empty) w pre = (r, wa)"
    by (cases "for_node_ids client ps (False, Map.empty) w pre")
  show "\<exists>st w1 st' w2.
          for_node_ids client ps (False, Map.empty) w pre = (Inr st, w1) \<and>
          handle_server client ps st w1 server_id = (Inr st', w2)"
  proof (cases r)
    case (Inl out)
    with pre assms have "handle_backup_client client ps w = (out, wa)"
      by (simp add: handle_backup_client_def for_node_ids_append)
    with ex for_node_ids_no_exit [of client ps "(False, Map.empty)" w pre out wa changed m b] pre Inl
    show ?thesis by simp
  next
    case (Inr st1)
    obtain r2 wb where step: "handle_server client ps st1 wa server_id = (r2, wb)"
      by (cases "handle_server client ps st1 wa server_id")
    show ?thesis
    proof (cases r2)
      case (Inl out)
      with pre Inr step assms have "handle_backup_client client ps w = (out, wb)"
        by (simp add: run_stops_at)
      with ex handle_server_no_exit [of client ps st1 wa server_id out wb changed m b] step Inl
      show ?thesis by simp
    next
      case (Inr st2)
      with pre \<open>r = Inr st1\<close> step show ?thesis by blast
    qed
  qed
next
  assume h: "for_node_ids client ps (False, Map.empty) w pre = (Inr st, w1) \<and>
          handle_server client ps st w1 server_id = (Inl out, w2)"
  then show "handle_backup_client client ps w = (out, w2)"
    using assms by (simp add: run_stops_at)
  from h show "\<forall>c m' b'. out \<noteq> exit_json c m' b'"
    using handle_server_no_exit by blast
  from h show "\<forall>st0. handle_server client ps st0 w1 server_id = (Inl out, w2)"
    using handle_server_failure_any_state by blast
qed

text \<open>
  Sample runs: one server handled and reported; then the same server followed by one
  that is not provisioned, where the entry of the first is not reported.
\<close>

theorem no_partial_success_report_witness:
  "(\<exists>st w1 st' w2.
      for_node_ids memory_driver (sample_params ''present'' [''C'']) (False, Map.empty)
        (start [''C'' \<mapsto> bare_details]) [] = (Inr st, w1) \<and>
      handle_server memory_driver (sample_params ''present'' [''C'']) st w1 ''C'' = (Inr st', w2))
   \<and> handle_backup_client memory_driver (sample_params ''present'' [''C'', ''B''])
       (start [''C'' \<mapsto> bare_details])
     = (fail_json ''Server B does not have backup enabled'',
        \<lparr>provider = [''C'' \<mapsto> added_details ''C''],
         calls = [Read ''C'', add_call ''C'', Read ''C'', Read ''B'']\<rparr>)"
proof
  let ?ps = "sample_params ''present'' [''C'']"
  let ?w = "start [''C'' \<mapsto> bare_details]"
  have h1: "node_ids ?ps = [] @ ''C'' # []" by (simp add: sample_params_def)
  have run: "handle_backup_client memory_driver ?ps ?w
               = (exit_json True ''Success'' [''C'' \<mapsto> added_dict ''C''],
                  \<lparr>provider = [''C'' \<mapsto> added_details ''C''],
                   calls = [Read ''C'', add_call ''C'', Read ''C'']\<rparr>)"
    by (simp add: sample_defs run_defs)
  from no_partial_success_report [OF h1, THEN conjunct1, THEN mp, OF run]
  show "\<exists>st w1 st' w2.
      for_node_ids memory_driver ?ps (False, Map.empty) ?w [] = (Inr st, w1) \<and>
      handle_server memory_driver ?ps st w1 ''C'' = (Inr st', w2)" .
next
  let ?ps = "sample_params ''present'' [''C'', ''B'']"
  let ?w = "start [''C'' \<mapsto> bare_details]"
  let ?w1 = "\<lparr>provider = [''C'' \<mapsto> added_details ''C''],
              calls = [Read ''C'', add_call ''C'', Read ''C'']\<rparr>"
  let ?w2 = "\<lparr>provider = [''C'' \<mapsto> added_details ''C''],
              calls = [Read ''C'', add_call ''C'', Read ''C'', Read ''B'']\<rparr>"
  have h1: "node_ids ?ps = [''C''] @ ''B'' # []" by (simp add: sample_params_def)
  have h2: "for_node_ids memory_driver ?ps (False, Map.empty) ?w [''C'']
              = (Inr (True, [''C'' \<mapsto> added_dict ''C'']), ?w1)"
    by (simp add: sample_defs run_defs)
  have h3: "handle_server memory_driver ?ps (True, [''C'' \<mapsto> added_dict ''C'']) ?w1 ''B''
              = (Inl (fail_json ''Server B does not have backup enabled''), ?w2)"
    by (simp add: sample_defs run_defs suffix_def)
  from no_partial_success_report [OF h1, THEN conjunct2, THEN mp, OF conjI [OF h2 h3]]
  show "handle_backup_client memory_driver ?ps ?w
          = (fail_json ''Server B does not have backup enabled'', ?w2)"
    by simp
qed

text \<open>
  C9. With the desired state \<^verbatim>\<open>present\<close>, when the add has returned and the read after it
  still shows no client of the desired type, \<^verbatim>\<open>_backup_client_obj_to_dict\<close> is applied to
  \<^verbatim>\<open>None\<close>: the read of its \<^verbatim>\<open>id\<close> raises \<^verbatim>\<open>AttributeError\<close>, and the run ends with this
  uncaught exception, not with \<^verbatim>\<open>fail_json\<close>.
\<close>

theorem missing_client_after_add_crashes:
  assumes "state ps = ''present''"
    and "node_ids ps = pre @ server_id # post"
    and "for_node_ids client ps (False, Map.empty) w pre = (Inr st, w1)"
    and "ex_get_backup_details_for_target client (provider w1) server_id = (Inr d1, p1)"
    and "get_backup_client d1 (client_type ps) = None"
    and "storage_policy ps = Some sp" and "schedule_policy ps = Some sc"
    and "client_type ps = Some ct"
    and "ex_add_client_to_target client p1 server_id ct sp sc (notify_trigger ps) (notify_email ps)
           = (Inr c, p2)"
    and "ex_get_backup_details_for_target client p2 server_id = (Inr d2, p3)"
    and "get_backup_client d2 (client_type ps) = None"
  shows "backup_client_obj_to_dict (get_backup_client d2 (client_type ps))
           = Inl (AttributeError ''id'') \<and>
         handle_backup_client client ps w =
           (uncaught (AttributeError ''id''),
            \<lparr>provider = p3,
             calls = calls w1 @ [Read server_id,
                                 Add server_id ct sp sc (notify_trigger ps) (notify_email ps),
                                 Read server_id]\<rparr>)"
proof -
  obtain ch ret where st: "st = (ch, ret)" by (cases st)
  let ?w1 = "\<lparr>provider = p1, calls = calls w1 @ [Read server_id]\<rparr>"
  let ?w2 = "\<lparr>provider = p2,
             calls = calls w1 @ [Read server_id,
                                 Add server_id ct sp sc (notify_trigger ps) (notify_email ps)]\<rparr>"
  have r1: "get_backup_details_for_host client w1 server_id = (Inr d1, ?w1)"
    by (rule get_details_ok [OF assms(4)])
  have a: "add_client_to_server client ps ?w1 server_id = (Inr c, ?w2)"
    using add_ok [OF assms(6,7,8), of client ?w1 server_id c p2] assms(9) by simp
  have r2: "get_backup_details_for_host client ?w2 server_id
              = (Inr d2, \<lparr>provider = p3,
                          calls = calls w1 @ [Read server_id,
                                 Add server_id ct sp sc (notify_trigger ps) (notify_email ps),
                                 Read server_id]\<rparr>)"
    using get_details_ok [of client ?w2 server_id d2 p3] assms(10) by simp
  have d: "backup_client_obj_to_dict (get_backup_client d2 (client_type ps))
             = Inl (AttributeError ''id'')"
    by (simp add: assms(11) backup_client_obj_to_dict_def)
  have "handle_server client ps st w1 server_id =
          (Inl (uncaught (AttributeError ''id'')),
           \<lparr>provider = p3,
             calls = calls w1 @ [Read server_id,
                                 Add server_id ct sp sc (notify_trigger ps) (notify_email ps),
                                 Read server_id]\<rparr>)"
    unfolding st
    by (simp add: handle_server_present_none [OF assms(1) r1 assms(5)] a r2 d)
  with assms(2,3) have "handle_backup_client client ps w =
           (uncaught (AttributeError ''id''),
            \<lparr>provider = p3,
             calls = calls w1 @ [Read server_id,
                                 Add server_id ct sp sc (notify_trigger ps) (notify_email ps),
                                 Read server_id]\<rparr>)"
    by (rule run_stops_at)
  with d show ?thesis by simp
qed

text \<open>A sample run with a provider whose add registers nothing.\<close>

theorem missing_client_after_add_crashes_witness:
  "handle_backup_client forgetful_add_driver (sample_params ''present'' [''C'', ''D''])
     (start [''C'' \<mapsto> bare_details])
   = (uncaught (AttributeError ''id''),
      \<lparr>provider = [''C'' \<mapsto> bare_details],
       calls = [Read ''C'', add_call ''C'', Read ''C'']\<rparr>)"
proof -
  let ?ps = "sample_params ''present'' [''C'', ''D'']"
  let ?reg = "[''C'' \<mapsto> bare_details]"
  let ?nc = "new_client ''C'' ''MySQL'' ''30 Day Storage Policy'' ''12AM - 6AM''"
  have h1: "state ?ps = ''present''" by (simp add: sample_params_def)
  have h2: "node_ids ?ps = [] @ ''C'' # [''D'']" by (simp add: sample_params_def)
  have h3: "for_node_ids forgetful_add_driver ?ps (False, Map.empty) (start ?reg) []
              = (Inr (False, Map.empty), start ?reg)"
    by simp
  have h4: "ex_get_backup_details_for_target forgetful_add_driver (provider (start ?reg)) ''C''
              = (Inr bare_details, ?reg)"
    by (simp add: sample_defs)
  have h5: "get_backup_client bare_details (client_type ?ps) = None"
    by (simp add: sample_defs get_backup_client_def)
  have h6: "storage_policy ?ps = Some ''30 Day Storage Policy''"
    and h7: "schedule_policy ?ps = Some ''12AM - 6AM''"
    and h8: "client_type ?ps = Some ''MySQL''"
    by (simp_all add: sample_params_def)
  have h9: "ex_add_client_to_target forgetful_add_driver ?reg ''C'' ''MySQL''
              ''30 Day Storage Policy'' ''12AM - 6AM'' (notify_trigger ?ps) (notify_email ?ps)
              = (Inr ?nc, ?reg)"
    by (simp add: sample_defs)
  have h10: "ex_get_backup_details_for_target forgetful_add_driver ?reg ''C''
              = (Inr bare_details, ?reg)"
    by (simp add: sample_defs)
  show ?thesis
    using missing_client_after_add_crashes [OF h1 h2 h3 h4 h5 h6 h7 h8 h9 h10 h5]
    by (simp add: sample_defs)
qed

text \<open>
  C10. For an empty list of node ids the run makes no call of the driver (the world,
  with its record of calls, is returned as it was) and exits with \<^verbatim>\<open>changed = False\<close>,
  the message \<^verbatim>\<open>Success\<close> and an empty result map: an empty list is not an error.
\<close>

theorem empty_node_ids_success:
  "handle_backup_client client (ps\<lparr>node_ids := []\<rparr>) w
     = (exit_json False ''Success'' Map.empty, w)"
  by (simp add: handle_backup_client_def)

end
